theory Spec2Isabelle
  imports Complex_Main "HOL-Library.AList"
begin

section \<open>Values exchanged with the controller\<close>

text \<open>
  The controller \<^verbatim>\<open>posts.ctrl.js\<close> receives parsed JSON payloads and hands JSON documents
  back. Objects are association lists, so that the order of the keys is kept, as it is in
  JavaScript. A \<^typ>\<open>string\<close> stands for a JavaScript string; its \<open>length\<close> counts the
  elements of the list, which stand for the code units JavaScript counts.
\<close>

datatype json =
    JNull
  | JBool bool
  | JNum int
  | JStr string
  | JArr "json list"
  | JObj "(string \<times> json) list"

type_synonym obj = "(string \<times> json) list"

text \<open>Errors a JavaScript expression or a store call can raise.\<close>

datatype js_error = TypeError | StoreError

text \<open>A JavaScript number as the pagination code meets it: an integer or \<open>NaN\<close>.\<close>

datatype jsnum = NaN | Num int

text \<open>The relational operator \<^verbatim>\<open><\<close>: every comparison with \<open>NaN\<close> is false.\<close>

fun js_lt :: "jsnum \<Rightarrow> jsnum \<Rightarrow> bool" where
  "js_lt (Num a) (Num b) = (a < b)"
| "js_lt _ _ = False"

fun js_minus :: "jsnum \<Rightarrow> jsnum \<Rightarrow> jsnum" where
  "js_minus (Num a) (Num b) = Num (a - b)"
| "js_minus _ _ = NaN"

fun js_times :: "jsnum \<Rightarrow> jsnum \<Rightarrow> jsnum" where
  "js_times (Num a) (Num b) = Num (a * b)"
| "js_times _ _ = NaN"

text \<open>
  \<^verbatim>\<open>parseInt(s, 10)\<close>: leading white space is skipped, one sign is read, then the longest
  run of decimal digits; with no digit the result is \<open>NaN\<close>. White space is the ASCII
  white space and the no-break space (code unit 160); the white space characters beyond
  code unit 255 are outside \<^typ>\<open>char\<close>. The integer is kept exact, where JavaScript rounds
  it to a double.
\<close>

definition is_space :: "char \<Rightarrow> bool" where
  "is_space c =
     ((of_char c :: nat) = 32 \<or> (of_char c :: nat) = 160
      \<or> (9 \<le> (of_char c :: nat) \<and> (of_char c :: nat) \<le> 13))"

definition is_digit :: "char \<Rightarrow> bool" where
  "is_digit c = (48 \<le> (of_char c :: nat) \<and> (of_char c :: nat) \<le> 57)"

definition digits_value :: "string \<Rightarrow> nat" where
  "digits_value ds = foldl (\<lambda>a c. 10 * a + (of_char c - 48)) 0 ds"

definition parseInt :: "string \<Rightarrow> jsnum" where
  "parseInt s =
     (let t = dropWhile is_space s;
          neg = (case t of c # _ \<Rightarrow> c = CHR ''-'' | [] \<Rightarrow> False);
          u = (case t of c # r \<Rightarrow> (if c = CHR ''-'' \<or> c = CHR ''+'' then r else t) | [] \<Rightarrow> t);
          ds = takeWhile is_digit u
      in if ds = [] then NaN
         else Num (if neg then - int (digits_value ds) else int (digits_value ds)))"

text \<open>
  \<^verbatim>\<open>ctx.query.page || '1'\<close>: the left operand is a string or \<open>undefined\<close>; \<open>undefined\<close> and the
  empty string are falsy.
\<close>

definition or_default :: "string option \<Rightarrow> string \<Rightarrow> string" where
  "or_default v d = (case v of None \<Rightarrow> d | Some s \<Rightarrow> (if s = [] then d else s))"

text \<open>\<^verbatim>\<open>Math.ceil(n / 10)\<close> on a document count \<open>n\<close>.\<close>

definition Math_ceil :: "real \<Rightarrow> int" where
  "Math_ceil x = \<lceil>x\<rceil>"

section \<open>Joi schemas\<close>

text \<open>
  The handlers build their schemas from \<^verbatim>\<open>Joi.object().keys\<close>, \<^verbatim>\<open>Joi.string()\<close>,
  \<^verbatim>\<open>Joi.array().items\<close> and \<^verbatim>\<open>required()\<close>. A schema is kept as data; the validation itself
  belongs to the Joi library and is a parameter of the handlers: a \<open>validator\<close> returns
  \<^verbatim>\<open>result.error\<close>, \<open>None\<close> when it is undefined.
\<close>

datatype presence = Optional | Required

datatype schema =
    String_schema presence
  | Array_schema "schema list" presence
  | Object_schema "(string \<times> schema) list" presence

datatype joi_error = ValidationError string

type_synonym validator = "schema \<Rightarrow> json \<Rightarrow> joi_error option"

text \<open>The schema of \<^verbatim>\<open>write\<close> (lines 18-25) and the schema of \<^verbatim>\<open>read\<close> (lines 116-120).\<close>

definition write_schema :: schema where
  "write_schema = Object_schema
     [(''title'', String_schema Required),
      (''body'', String_schema Required),
      (''tags'', Array_schema [String_schema Optional] Required)] Optional"

definition read_schema :: schema where
  "read_schema = Object_schema
     [(''title'', String_schema Optional),
      (''body'', String_schema Optional),
      (''tags'', Array_schema [String_schema Optional] Optional)] Optional"

text \<open>
  A reference validator, used to run the handlers on concrete requests. It follows Joi's
  documented rules for the constructs above: a string schema accepts non-empty strings, an
  array schema accepts arrays whose items match one of the item schemas, an object schema
  accepts objects without unknown keys whose required keys are present and whose present
  keys match. The declared keys are checked first, in the order of the schema, then the
  unknown keys; the error carries the label of the first failing key.
\<close>

fun is_required :: "schema \<Rightarrow> bool" where
  "is_required (String_schema p) = (p = Required)"
| "is_required (Array_schema _ p) = (p = Required)"
| "is_required (Object_schema _ p) = (p = Required)"

fun conforms :: "schema \<Rightarrow> json \<Rightarrow> bool" where
  "conforms (String_schema p) v = (case v of JStr s \<Rightarrow> s \<noteq> [] | _ \<Rightarrow> False)"
| "conforms (Array_schema its p) v =
     (case v of
        JArr xs \<Rightarrow> its = [] \<or> list_all (\<lambda>x. list_ex (\<lambda>s. conforms s x) its) xs
      | _ \<Rightarrow> False)"
| "conforms (Object_schema ks p) v =
     (case v of
        JObj kvs \<Rightarrow>
          list_all (\<lambda>kv. fst kv \<in> set (map fst ks)) kvs \<and>
          list_all (\<lambda>ks1. case map_of kvs (fst ks1) of
                            None \<Rightarrow> \<not> is_required (snd ks1)
                          | Some x \<Rightarrow> conforms (snd ks1) x) ks
      | _ \<Rightarrow> False)"

fun failing_key :: "schema \<Rightarrow> json \<Rightarrow> string" where
  "failing_key (Object_schema ks p) (JObj kvs) =
     (case filter (\<lambda>ks1. case map_of kvs (fst ks1) of
                           None \<Rightarrow> is_required (snd ks1)
                         | Some x \<Rightarrow> \<not> conforms (snd ks1) x) ks of
        ks1 # _ \<Rightarrow> fst ks1
      | [] \<Rightarrow>
         (case filter (\<lambda>kv. fst kv \<notin> set (map fst ks)) kvs of
            kv # _ \<Rightarrow> fst kv
          | [] \<Rightarrow> ''value''))"
| "failing_key _ _ = ''value''"

definition joi_validate :: validator where
  "joi_validate sch v = (if conforms sch v then None else Some (ValidationError (failing_key sch v)))"

section \<open>The Koa context\<close>

text \<open>
  What a handler reads from and writes to \<^verbatim>\<open>ctx\<close>: \<^verbatim>\<open>ctx.params.id\<close>, \<^verbatim>\<open>ctx.query.page\<close>,
  \<^verbatim>\<open>ctx.request.body\<close> (an object or an array, as the body parser leaves it), and the
  response: \<^verbatim>\<open>ctx.status\<close>, \<^verbatim>\<open>ctx.body\<close> and the response headers. Koa starts every
  response with status 404 and no body.
\<close>

datatype resp_body = Json json | JoiError joi_error

record ctx =
  params_id :: string
  query_page :: "string option"
  request_body :: json
  status :: nat
  explicitStatus :: bool
  body :: "resp_body option"
  headers :: "(string \<times> int) list"

definition createContext :: "string \<Rightarrow> string option \<Rightarrow> json \<Rightarrow> ctx" where
  "createContext pid page payload =
     \<lparr>params_id = pid, query_page = page, request_body = payload,
      status = 404, explicitStatus = False, body = None, headers = []\<rparr>"

text \<open>
  \<^verbatim>\<open>ctx.status = code\<close> marks the status as explicitly set and drops the body for the
  statuses that carry none.
\<close>

definition set_status :: "nat \<Rightarrow> ctx \<Rightarrow> ctx" where
  "set_status code c =
     c\<lparr>status := code, explicitStatus := True,
       body := (if code \<in> {204, 205, 304} then None else body c)\<rparr>"

text \<open>
  \<^verbatim>\<open>ctx.body = v\<close> for a value \<open>v\<close> that is neither null nor undefined: unless the status
  was set explicitly before, Koa assigns \<^verbatim>\<open>this.status = 200\<close>, which marks it as set.
\<close>

definition set_body :: "resp_body \<Rightarrow> ctx \<Rightarrow> ctx" where
  "set_body v c =
     c\<lparr>body := Some v, status := (if explicitStatus c then status c else 200),
       explicitStatus := True\<rparr>"

text \<open>\<^verbatim>\<open>ctx.set(field, n)\<close> with a number \<open>n\<close>; Koa sends its decimal rendering.\<close>

definition set_header :: "string \<Rightarrow> int \<Rightarrow> ctx \<Rightarrow> ctx" where
  "set_header field n c = c\<lparr>headers := AList.update field n (headers c)\<rparr>"

text \<open>
  A handler either returns, leaving the response in the context, or throws:
  \<^verbatim>\<open>ctx.throw(500, e)\<close> throws an HTTP error with cause \<open>e\<close>; an error raised outside a
  \<^verbatim>\<open>try\<close> block leaves the handler as it is.
\<close>

datatype exn = HttpError nat js_error | Uncaught js_error

datatype outcome = Done ctx | Thrown exn

section \<open>The store behind the Post model\<close>

text \<open>
  The handlers reach the document store through the \<^verbatim>\<open>Post\<close> model only. The model is a
  parameter of the handlers: a record of the six operations they call, over any store state
  \<open>'s\<close>. Each operation returns the value its promise resolves to, or the error it rejects
  with, and the next store state.
\<close>

record 's post_model =
  save :: "obj \<Rightarrow> 's \<Rightarrow> (js_error + obj) \<times> 's"
  find_page :: "nat \<Rightarrow> jsnum \<Rightarrow> 's \<Rightarrow> (js_error + obj list) \<times> 's"
  countDocuments :: "'s \<Rightarrow> (js_error + nat) \<times> 's"
  findById :: "string \<Rightarrow> 's \<Rightarrow> (js_error + obj option) \<times> 's"
  findByIdAndRemove :: "string \<Rightarrow> 's \<Rightarrow> (js_error + unit) \<times> 's"
  findByIdAndUpdate :: "string \<Rightarrow> json \<Rightarrow> 's \<Rightarrow> (js_error + obj option) \<times> 's"

text \<open>
  \<open>find_page M l k\<close> is \<^verbatim>\<open>Post.find().sort({_id: -1}).limit(l).skip(k).lean().exec()\<close>.
  To speak about which store operations a request invoked, every invocation is recorded
  in a trace kept beside the store state.
\<close>

datatype call =
    Save obj
  | Find nat jsnum
  | Count
  | FindById string
  | FindByIdAndRemove string
  | FindByIdAndUpdate string json

type_synonym 's world = "'s \<times> call list"

definition invoke :: "call \<Rightarrow> ('s \<Rightarrow> 'r \<times> 's) \<Rightarrow> 's world \<Rightarrow> 'r \<times> 's world" where
  "invoke c oper w = (case oper (fst w) of (r, s') \<Rightarrow> (r, (s', snd w @ [c])))"

section \<open>The handlers\<close>

subsection \<open>write (lines 14-50)\<close>

text \<open>
  The handler \<^verbatim>\<open>write\<close> is named \<open>write_post\<close> here, and \<^verbatim>\<open>remove\<close> below is named
  \<open>remove_post\<close>.
\<close>

text \<open>
  \<^verbatim>\<open>const { title, body, tags } = ctx.request.body\<close>: destructuring \<open>null\<close> raises a
  TypeError; a missing property reads as \<open>undefined\<close>, and the object literal handed to
  \<^verbatim>\<open>new Post\<close> keeps the defined ones.
\<close>

definition property :: "json \<Rightarrow> string \<Rightarrow> json option" where
  "property v k = (case v of JObj kvs \<Rightarrow> map_of kvs k | _ \<Rightarrow> None)"

definition destructure :: "json \<Rightarrow> js_error + obj" where
  "destructure v =
     (case v of
        JNull \<Rightarrow> Inl TypeError
      | _ \<Rightarrow> Inr (List.map_filter (\<lambda>k. map_option (Pair k) (property v k))
                    [''title'', ''body'', ''tags'']))"

definition write_post :: "validator \<Rightarrow> 's post_model \<Rightarrow> ctx \<Rightarrow> 's world \<Rightarrow> outcome \<times> 's world" where
  "write_post V M c w =
     (case V write_schema (request_body c) of
        Some e \<Rightarrow> (Done (set_status 400 c), w)
      | None \<Rightarrow>
         (case destructure (request_body c) of
            Inl e \<Rightarrow> (Thrown (Uncaught e), w)
          | Inr given \<Rightarrow>
             (case invoke (Save given) (save M given) w of
                (Inl e, w') \<Rightarrow> (Thrown (HttpError 500 e), w')
              | (Inr post, w') \<Rightarrow> (Done (set_body (Json (JObj post)) c), w'))))"

subsection \<open>list (lines 56-89)\<close>

text \<open>
  The callback of \<^verbatim>\<open>posts.map\<close> evaluates \<^verbatim>\<open>post.body.length()\<close>. Reading \<open>length\<close> gives a
  number for a string or an array, a property for an object, \<open>undefined\<close> for a number or
  a boolean, and raises a TypeError for \<open>null\<close> and \<open>undefined\<close>. The value read is then
  called: no value of a document is a function, so the call raises a TypeError.
\<close>

datatype js_value = Undefined | Value json

fun member_length :: "js_value \<Rightarrow> js_error + js_value" where
  "member_length Undefined = Inl TypeError"
| "member_length (Value JNull) = Inl TypeError"
| "member_length (Value (JStr s)) = Inr (Value (JNum (int (length s))))"
| "member_length (Value (JArr xs)) = Inr (Value (JNum (int (length xs))))"
| "member_length (Value (JObj kvs)) =
     Inr (case map_of kvs ''length'' of None \<Rightarrow> Undefined | Some v \<Rightarrow> Value v)"
| "member_length (Value _) = Inr Undefined"

definition call_value :: "js_value \<Rightarrow> js_error + js_value" where
  "call_value f = Inl TypeError"

fun to_number :: "js_value \<Rightarrow> jsnum" where
  "to_number (Value (JNum n)) = Num n"
| "to_number (Value (JBool b)) = Num (if b then 1 else 0)"
| "to_number (Value JNull) = Num 0"
| "to_number _ = NaN"

text \<open>\<^verbatim>\<open>`${post.body.slice(0, 200)}...`\<close> on a string body.\<close>

definition slice_marker :: "js_value \<Rightarrow> js_error + json" where
  "slice_marker v =
     (case v of Value (JStr s) \<Rightarrow> Inr (JStr (take 200 s @ ''...'')) | _ \<Rightarrow> Inl TypeError)"

definition render :: "obj \<Rightarrow> js_error + obj" where
  "render post =
     (let b = (case map_of post ''body'' of None \<Rightarrow> Undefined | Some v \<Rightarrow> Value v) in
      case member_length b of
        Inl e \<Rightarrow> Inl e
      | Inr len \<Rightarrow>
         (case call_value len of
            Inl e \<Rightarrow> Inl e
          | Inr n \<Rightarrow>
             (if js_lt (to_number n) (Num 200)
              then (case b of Undefined \<Rightarrow> Inr post | Value v \<Rightarrow> Inr (AList.update ''body'' v post))
              else (case slice_marker b of
                      Inl e \<Rightarrow> Inl e
                    | Inr v \<Rightarrow> Inr (AList.update ''body'' v post)))))"

text \<open>\<^verbatim>\<open>Array.prototype.map\<close> with a callback that may throw: the first error ends it.\<close>

fun map_throwing :: "('a \<Rightarrow> js_error + 'b) \<Rightarrow> 'a list \<Rightarrow> js_error + 'b list" where
  "map_throwing f [] = Inr []"
| "map_throwing f (x # xs) =
     (case f x of
        Inl e \<Rightarrow> Inl e
      | Inr y \<Rightarrow> (case map_throwing f xs of Inl e \<Rightarrow> Inl e | Inr ys \<Rightarrow> Inr (y # ys)))"

definition list :: "'s post_model \<Rightarrow> ctx \<Rightarrow> 's world \<Rightarrow> outcome \<times> 's world" where
  "list M c w =
     (let page = parseInt (or_default (query_page c) ''1'') in
      if js_lt page (Num 1) then (Done (set_status 400 c), w)
      else
        (let skip = js_times (js_minus page (Num 1)) (Num 10) in
         case invoke (Find 10 skip) (find_page M 10 skip) w of
           (Inl e, w1) \<Rightarrow> (Thrown (HttpError 500 e), w1)
         | (Inr posts, w1) \<Rightarrow>
            (case invoke Count (countDocuments M) w1 of
               (Inl e, w2) \<Rightarrow> (Thrown (HttpError 500 e), w2)
             | (Inr postCount, w2) \<Rightarrow>
                (let c1 = set_header ''Last-Page'' (Math_ceil (real postCount / 10)) c in
                 case map_throwing render posts of
                   Inl e \<Rightarrow> (Thrown (HttpError 500 e), w2)
                 | Inr shown \<Rightarrow> (Done (set_body (Json (JArr (map JObj shown))) c1), w2)))))"

subsection \<open>checkObjectId (lines 97-104)\<close>

text \<open>
  \<^verbatim>\<open>ObjectId.isValid\<close> belongs to the store's driver and is a parameter; \<open>next\<close> is the
  rest of the middleware chain, run on the same context.
\<close>

definition checkObjectId ::
  "(string \<Rightarrow> bool) \<Rightarrow> ctx \<Rightarrow> (ctx \<Rightarrow> 's world \<Rightarrow> outcome \<times> 's world) \<Rightarrow> 's world
     \<Rightarrow> outcome \<times> 's world" where
  "checkObjectId isValid c next w =
     (if \<not> isValid (params_id c) then (Done (set_status 400 c), w) else next c w)"

subsection \<open>read (lines 111-142)\<close>

definition read :: "validator \<Rightarrow> 's post_model \<Rightarrow> ctx \<Rightarrow> 's world \<Rightarrow> outcome \<times> 's world" where
  "read V M c w =
     (case V read_schema (request_body c) of
        Some e \<Rightarrow> (Done (set_body (JoiError e) (set_status 400 c)), w)
      | None \<Rightarrow>
         (case invoke (FindById (params_id c)) (findById M (params_id c)) w of
            (Inl e, w') \<Rightarrow> (Thrown (HttpError 500 e), w')
          | (Inr None, w') \<Rightarrow> (Done (set_status 404 c), w')
          | (Inr (Some post), w') \<Rightarrow> (Done (set_body (Json (JObj post)) c), w')))"

subsection \<open>remove (lines 149-157)\<close>

definition remove_post :: "'s post_model \<Rightarrow> ctx \<Rightarrow> 's world \<Rightarrow> outcome \<times> 's world" where
  "remove_post M c w =
     (case invoke (FindByIdAndRemove (params_id c)) (findByIdAndRemove M (params_id c)) w of
        (Inl e, w') \<Rightarrow> (Thrown (HttpError 500 e), w')
      | (Inr _, w') \<Rightarrow> (Done (set_status 204 c), w'))"

subsection \<open>update (lines 164-179)\<close>

definition update :: "'s post_model \<Rightarrow> ctx \<Rightarrow> 's world \<Rightarrow> outcome \<times> 's world" where
  "update M c w =
     (case invoke (FindByIdAndUpdate (params_id c) (request_body c))
             (findByIdAndUpdate M (params_id c) (request_body c)) w of
        (Inl e, w') \<Rightarrow> (Thrown (HttpError 500 e), w')
      | (Inr None, w') \<Rightarrow> (Done (set_status 404 c), w')
      | (Inr (Some post), w') \<Rightarrow> (Done (set_body (Json (JObj post)) c), w'))"

section \<open>A reference store\<close>

text \<open>
  The \<^verbatim>\<open>Post\<close> model (\<^verbatim>\<open>models/post\<close>) and the document store behind it are not
  part of the controller. The store below follows section 4.4 of the specification; it
  is the instance of \<^typ>\<open>'s post_model\<close> on which requests are run, and the
  statements about paging and merging are made on it.
\<close>

text \<open>
  Modelled from the spec: the state of the document store, which the source reaches only
  through the imported \<^verbatim>\<open>Post\<close> model. \<open>docs\<close> holds the posts in creation order,
  \<open>issued\<close> counts the identifiers assigned so far, \<open>online\<close> is false while every
  operation fails with a StoreError.
\<close>

record store =
  docs :: "obj list"
  issued :: nat
  online :: bool

text \<open>
  Modelled from the spec: the identifier the store assigns, "a fixed-length hexadecimal
  token"; the source leaves it to the store. The \<open>n\<close>-th identifier is \<open>n\<close> written with 24
  hexadecimal digits.
\<close>

definition hex_digit :: "nat \<Rightarrow> char" where
  "hex_digit d = ''0123456789abcdef'' ! (d mod 16)"

text \<open>Modelled from the spec: the last \<open>k\<close> hexadecimal digits of \<open>n\<close>, for the identifiers above.\<close>

fun hex :: "nat \<Rightarrow> nat \<Rightarrow> string" where
  "hex 0 n = []"
| "hex (Suc k) n = hex k (n div 16) @ [hex_digit n]"

text \<open>Modelled from the spec: the identifier of the \<open>n\<close>-th post the store creates.\<close>

definition oid :: "nat \<Rightarrow> string" where
  "oid n = hex 24 n"

text \<open>
  Modelled from the spec: the format check of identifiers, which the source takes from
  the store's driver (\<^verbatim>\<open>ObjectId.isValid\<close>): 24 hexadecimal digits.
\<close>

definition is_hex :: "char \<Rightarrow> bool" where
  "is_hex c = (c \<in> set ''0123456789abcdefABCDEF'')"

text \<open>
  Modelled from the spec: the identifier guard's format check, the instance of
  \<^verbatim>\<open>ObjectId.isValid\<close> used with the store below.
\<close>

definition ObjectId_isValid :: "string \<Rightarrow> bool" where
  "ObjectId_isValid i = (length i = 24 \<and> list_all is_hex i)"

text \<open>
  Modelled from the spec: a post carries its identifier in the field \<open>_id\<close>, the field the
  source sorts by.
\<close>

definition has_id :: "string \<Rightarrow> obj \<Rightarrow> bool" where
  "has_id i d = (map_of d ''_id'' = Some (JStr i))"

text \<open>
  Modelled from the spec: \<open>create(fields)\<close>, "persists and returns the post including its
  assigned identifier; may fail with a StoreError" (\<^verbatim>\<open>post.save()\<close> in the source).
\<close>

definition store_create :: "obj \<Rightarrow> store \<Rightarrow> (js_error + obj) \<times> store" where
  "store_create given s =
     (if \<not> online s then (Inl StoreError, s)
      else (let d = (''_id'', JStr (oid (issued s))) # given
            in (Inr d, s\<lparr>docs := docs s @ [d], issued := Suc (issued s)\<rparr>)))"

text \<open>
  Modelled from the spec: \<open>findPage(sort = mostRecentFirst, limit, offset)\<close>, "returns zero
  or more posts; ordering is by recency descending; empty sequence is a valid, non-error
  result". The specification is silent on an offset that is not a natural number; this
  store rejects it.
\<close>

definition store_findPage :: "nat \<Rightarrow> jsnum \<Rightarrow> store \<Rightarrow> (js_error + obj list) \<times> store" where
  "store_findPage limit offset s =
     (if \<not> online s then (Inl StoreError, s)
      else (case offset of
              NaN \<Rightarrow> (Inl StoreError, s)
            | Num k \<Rightarrow>
               (if k < 0 then (Inl StoreError, s)
                else (Inr (take limit (drop (nat k) (rev (docs s)))), s))))"

text \<open>Modelled from the spec: \<open>count()\<close>, "total number of posts currently stored".\<close>

definition store_count :: "store \<Rightarrow> (js_error + nat) \<times> store" where
  "store_count s = (if \<not> online s then (Inl StoreError, s) else (Inr (length (docs s)), s))"

text \<open>
  Modelled from the spec: \<open>findById(id)\<close>, "absence is not an error, it is an empty
  result".
\<close>

definition store_findById :: "string \<Rightarrow> store \<Rightarrow> (js_error + obj option) \<times> store" where
  "store_findById i s =
     (if \<not> online s then (Inl StoreError, s) else (Inr (find (has_id i) (docs s)), s))"

text \<open>
  Modelled from the spec: \<open>deleteById(id)\<close>, "deleting a nonexistent identifier is treated
  as a no-op from the store's perspective".
\<close>

definition store_deleteById :: "string \<Rightarrow> store \<Rightarrow> (js_error + unit) \<times> store" where
  "store_deleteById i s =
     (if \<not> online s then (Inl StoreError, s)
      else (Inr (), s\<lparr>docs := filter (\<lambda>d. \<not> has_id i d) (docs s)\<rparr>))"

text \<open>
  Modelled from the spec: \<open>updateById(id, patch)\<close>, "merges \<open>patch\<close> fields into the existing
  record and returns the updated record, or empty if the identifier does not exist". The
  fields of a patch are the members of a JSON object; the identifier of a post is
  immutable, so a patch never replaces it.
\<close>

definition patch_fields :: "json \<Rightarrow> obj" where
  "patch_fields p = (case p of JObj kvs \<Rightarrow> filter (\<lambda>kv. fst kv \<noteq> ''_id'') kvs | _ \<Rightarrow> [])"

text \<open>
  Modelled from the spec: the merge of a patch into a record: a supplied field replaces
  the stored one or is added, every other field stays.
\<close>

definition merge_patch :: "json \<Rightarrow> obj \<Rightarrow> obj" where
  "merge_patch p d = AList.merge d (patch_fields p)"

text \<open>
  Modelled from the spec: \<open>updateById\<close> itself, on the posts that carry the identifier.
\<close>

definition store_updateById :: "string \<Rightarrow> json \<Rightarrow> store \<Rightarrow> (js_error + obj option) \<times> store" where
  "store_updateById i p s =
     (if \<not> online s then (Inl StoreError, s)
      else (Inr (map_option (merge_patch p) (find (has_id i) (docs s))),
            s\<lparr>docs := map (\<lambda>d. if has_id i d then merge_patch p d else d) (docs s)\<rparr>))"

text \<open>
  Modelled from the spec: the \<^verbatim>\<open>Post\<close> model imported by the controller, as the
  collaborator interface of section 4.4 over the store above.
\<close>

definition Post :: "store post_model" where
  "Post = \<lparr>save = store_create, find_page = store_findPage, countDocuments = store_count,
           findById = store_findById, findByIdAndRemove = store_deleteById,
           findByIdAndUpdate = store_updateById\<rparr>"

text \<open>Modelled from the spec: the store before any post is created.\<close>

definition empty_store :: store where
  "empty_store = \<lparr>docs = [], issued = 0, online = True\<rparr>"

text \<open>
  Modelled from the spec: the store after the given posts have been created in it, in the
  order of the list.
\<close>

fun seed :: "obj list \<Rightarrow> store \<Rightarrow> store" where
  "seed [] s = s"
| "seed (p # ps) s = seed ps (snd (store_create p s))"

text \<open>Sample posts for running the handlers.\<close>

definition example_post :: obj where
  "example_post = [(''title'', JStr ''A''), (''body'', JStr ''B''), (''tags'', JArr [JStr ''x''])]"

definition long_post :: obj where
  "long_post =
     [(''title'', JStr ''A''), (''body'', JStr (replicate 201 CHR ''a'')), (''tags'', JArr [])]"

section \<open>Properties of the handlers\<close>

subsection \<open>Rendering a page of posts\<close>

lemma call_value_throws: "call_value f = Inl TypeError"
  by (simp add: call_value_def)

lemma member_length_error: "member_length v = Inl e \<Longrightarrow> e = TypeError"
  by (cases v rule: member_length.cases) simp_all

text \<open>Whatever the post, the callback of \<^verbatim>\<open>posts.map\<close> raises a TypeError.\<close>

lemma render_throws: "render post = Inl TypeError"
  by (auto simp add: render_def Let_def call_value_throws split: sum.splits
        dest: member_length_error)

lemma map_throwing_render:
  "map_throwing render posts = (if posts = [] then Inr [] else Inl TypeError)"
  by (cases posts) (simp_all add: render_throws)

text \<open>
  Claim C1. In a list response a body of more than 200 characters should appear as its
  first 200 characters followed by \<open>...\<close>, and a shorter body unchanged. The handler
  calls \<^verbatim>\<open>post.body.length()\<close>, so for a store holding one post with a body of 201
  characters the request \<^verbatim>\<open>GET /posts\<close> ends in \<^verbatim>\<open>ctx.throw(500, e)\<close> with a TypeError
  instead of a rendered page.
\<close>

theorem list_long_body_throws:
  "list Post (createContext [] None (JObj [])) (seed [long_post] empty_store, [])
   = (Thrown (HttpError 500 TypeError),
      (seed [long_post] empty_store, [Find 10 (Num 0), Count]))"
  by code_simp

text \<open>
  Claim C4. A list request for a page number of at least 1 should answer with at most ten
  posts, most recent first, from offset \<open>(page - 1) * 10\<close>. With eleven stored posts the
  second page holds one post; the handler asks the store for it (limit 10, offset 10) and
  then fails while rendering it, for the reason shown under C1.
\<close>

theorem list_second_page_throws:
  "list Post (createContext [] (Some ''2'') (JObj []))
     (seed (replicate 11 example_post) empty_store, [])
   = (Thrown (HttpError 500 TypeError),
      (seed (replicate 11 example_post) empty_store, [Find 10 (Num 10), Count]))"
  by code_simp

subsection \<open>The identifier guard\<close>

text \<open>
  Claim C3. When the identifier of the request fails the format check, \<open>checkObjectId\<close>
  answers 400 and does not run the rest of the chain, whichever handler that is (\<open>read\<close>,
  \<open>update\<close> or \<open>remove_post\<close>): the store and the trace of store operations are as they
  were before the request.
\<close>

theorem checkObjectId_rejects_malformed:
  assumes "\<not> isValid (params_id c)"
  shows "checkObjectId isValid c next (s, tr) = (Done (set_status 400 c), (s, tr))
         \<and> status (set_status 400 c) = 400"
  using assms by (simp add: checkObjectId_def set_status_def)

theorem checkObjectId_rejects_malformed_witness:
  "\<not> ObjectId_isValid (params_id (createContext ''42'' None (JObj [])))
   \<and> checkObjectId ObjectId_isValid (createContext ''42'' None (JObj []))
        (read joi_validate Post) (seed [example_post] empty_store, [])
      = (Done (set_status 400 (createContext ''42'' None (JObj []))),
         (seed [example_post] empty_store, []))
   \<and> status (set_status 400 (createContext ''42'' None (JObj []))) = 400"
proof -
  have h: "\<not> ObjectId_isValid (params_id (createContext ''42'' None (JObj [])))"
    by (simp add: ObjectId_isValid_def createContext_def)
  show ?thesis
    using h checkObjectId_rejects_malformed [of ObjectId_isValid
        "createContext ''42'' None (JObj [])" "read joi_validate Post"
        "seed [example_post] empty_store" "[]"]
    by simp
qed

subsection \<open>Paging\<close>

text \<open>
  What the paging code of \<open>list\<close> does before the page is rendered: a page number below 1
  is answered with 400 without a store access, any other integer page asks the store for
  ten posts from offset \<open>(page - 1) * 10\<close>, and a non-empty page then fails.
\<close>

lemma list_page_below_1:
  assumes "parseInt (or_default (query_page c) ''1'') = Num n" and "n < 1"
  shows "list M c w = (Done (set_status 400 c), w)"
  using assms by (simp add: list_def)

lemma list_queries_offset:
  assumes "parseInt (or_default (query_page c) ''1'') = Num n" and "1 \<le> n"
  shows "\<exists>rest. snd (snd (list M c (s, tr))) = tr @ Find 10 (Num ((n - 1) * 10)) # rest"
  using assms
  by (simp add: list_def Let_def invoke_def split: prod.splits sum.splits)

lemma list_default_page: "parseInt (or_default None ''1'') = Num 1"
  by code_simp

lemma store_findPage_page:
  assumes "online s" and "0 \<le> k"
  shows "store_findPage 10 (Num k) s = (Inr (take 10 (drop (nat k) (rev (docs s)))), s)"
  using assms by (simp add: store_findPage_def)

lemma list_nonempty_page_throws:
  assumes "\<not> js_lt (parseInt (or_default (query_page c) ''1'')) (Num 1)"
    and "find_page M 10
           (js_times (js_minus (parseInt (or_default (query_page c) ''1'')) (Num 1)) (Num 10)) s
         = (Inr posts, s1)"
    and "countDocuments M s1 = (Inr n, s2)" and "posts \<noteq> []"
  shows "fst (list M c (s, tr)) = Thrown (HttpError 500 TypeError)"
  using assms by (simp add: list_def Let_def invoke_def map_throwing_render)

lemma ceil_div10: "\<lceil>real n / 10\<rceil> = int ((n + 9) div 10)"
proof -
  have "\<lceil>real n / 10\<rceil> = \<lceil>of_int (int n) / (of_int 10 :: real)\<rceil>" by simp
  also have "\<dots> = - (- int n div 10)" by (rule ceiling_divide_eq_div)
  also have "\<dots> = int ((n + 9) div 10)" by (simp add: zdiv_int)
  finally show ?thesis .
qed

text \<open>
  Claim C5. When a list request succeeds (status 200), the \<open>Last-Page\<close> header is the
  ceiling of \<open>n / 10\<close>, where \<open>n\<close> is the number the store's count returned during the
  request; this is \<open>(n + 9) div 10\<close>, and 0 when \<open>n = 0\<close>.
\<close>

theorem list_last_page:
  assumes "list M c (s, tr) = (Done r, w')" and "status r = 200"
  shows "\<exists>k posts s1 n s2.
           find_page M 10 k s = (Inr posts, s1) \<and> countDocuments M s1 = (Inr n, s2) \<and>
           w' = (s2, tr @ [Find 10 k, Count]) \<and>
           map_of (headers r) ''Last-Page'' = Some \<lceil>real n / 10\<rceil> \<and>
           \<lceil>real n / 10\<rceil> = int ((n + 9) div 10) \<and>
           (n = 0 \<longrightarrow> map_of (headers r) ''Last-Page'' = Some 0)"
proof -
  let ?k = "js_times (js_minus (parseInt (or_default (query_page c) ''1'')) (Num 1)) (Num 10)"
  obtain fr s1 where f: "find_page M 10 ?k s = (fr, s1)" by (cases "find_page M 10 ?k s")
  obtain cr s2 where n: "countDocuments M s1 = (cr, s2)" by (cases "countDocuments M s1")
  from assms f n obtain posts n shown where
    res: "fr = Inr posts" "cr = Inr n" "w' = (s2, tr @ [Find 10 ?k, Count])" and
    r: "r = set_body (Json (JArr (map JObj shown)))
              (set_header ''Last-Page'' (Math_ceil (real n / 10)) c)"
    by (auto simp add: list_def Let_def invoke_def set_status_def
          split: if_splits sum.splits)
  have hdr: "map_of (headers r) ''Last-Page'' = Some \<lceil>real n / 10\<rceil>"
    by (simp add: r set_body_def set_header_def Math_ceil_def update_conv')
  have "find_page M 10 ?k s = (Inr posts, s1) \<and> countDocuments M s1 = (Inr n, s2) \<and>
        w' = (s2, tr @ [Find 10 ?k, Count]) \<and>
        map_of (headers r) ''Last-Page'' = Some \<lceil>real n / 10\<rceil> \<and>
        \<lceil>real n / 10\<rceil> = int ((n + 9) div 10) \<and>
        (n = 0 \<longrightarrow> map_of (headers r) ''Last-Page'' = Some 0)"
    using f n res hdr by (simp add: ceil_div10)
  then show ?thesis by blast
qed

theorem list_last_page_witness:
  "list Post (createContext [] (Some ''3'') (JObj []))
     (seed (replicate 11 example_post) empty_store, [])
   = (Done (set_body (Json (JArr []))
        (set_header ''Last-Page'' 2 (createContext [] (Some ''3'') (JObj [])))),
      (seed (replicate 11 example_post) empty_store, [Find 10 (Num 20), Count]))
   \<and> status (set_body (Json (JArr []))
        (set_header ''Last-Page'' 2 (createContext [] (Some ''3'') (JObj [])))) = 200
   \<and> (\<exists>k posts s1 n s2.
         find_page Post 10 k (seed (replicate 11 example_post) empty_store) = (Inr posts, s1) \<and>
         countDocuments Post s1 = (Inr n, s2) \<and>
         (seed (replicate 11 example_post) empty_store, [Find 10 (Num 20), Count])
           = (s2, [] @ [Find 10 k, Count]) \<and>
         map_of (headers (set_body (Json (JArr []))
            (set_header ''Last-Page'' 2 (createContext [] (Some ''3'') (JObj [])))))
           ''Last-Page'' = Some \<lceil>real n / 10\<rceil> \<and>
         \<lceil>real n / 10\<rceil> = int ((n + 9) div 10) \<and>
         (n = 0 \<longrightarrow> map_of (headers (set_body (Json (JArr []))
            (set_header ''Last-Page'' 2 (createContext [] (Some ''3'') (JObj [])))))
           ''Last-Page'' = Some 0))"
proof -
  let ?c = "createContext [] (Some ''3'') (JObj [])"
  let ?r = "set_body (Json (JArr [])) (set_header ''Last-Page'' 2 ?c)"
  let ?s = "seed (replicate 11 example_post) empty_store"
  have run: "list Post ?c (?s, []) = (Done ?r, (?s, [Find 10 (Num 20), Count]))"
    by code_simp
  have st: "status ?r = 200"
    by (simp add: set_body_def set_header_def createContext_def)
  show ?thesis
    using run st list_last_page [OF run st] by simp
qed

text \<open>
  Claim C9. A page parameter that is present and does not start with an integer parses to
  \<open>NaN\<close>; \<open>NaN < 1\<close> is false, so the request is not answered with 400: the handler
  queries the store with limit 10 and offset \<open>NaN\<close>, and the request ends with status 200
  or with an HTTP error 500.
\<close>

theorem list_nan_page_not_rejected:
  assumes "p \<noteq> []" and "parseInt p = NaN"
  shows "(case fst (list M (createContext i (Some p) payload) (s, tr)) of
            Done r \<Rightarrow> status r = 200
          | Thrown x \<Rightarrow> x \<in> range (HttpError 500))
         \<and> (\<exists>rest. snd (snd (list M (createContext i (Some p) payload) (s, tr)))
                     = tr @ Find 10 NaN # rest)"
  using assms
  by (simp add: list_def Let_def or_default_def invoke_def set_body_def set_header_def
        createContext_def split: prod.splits sum.splits)

theorem list_nan_page_not_rejected_witness:
  "''abc'' \<noteq> [] \<and> parseInt ''abc'' = NaN
   \<and> (case fst (list Post (createContext [] (Some ''abc'') (JObj [])) (empty_store, [])) of
            Done r \<Rightarrow> status r = 200
          | Thrown x \<Rightarrow> x \<in> range (HttpError 500))
   \<and> (\<exists>rest. snd (snd (list Post (createContext [] (Some ''abc'') (JObj [])) (empty_store, [])))
          = [] @ Find 10 NaN # rest)"
proof -
  have b: "''abc'' \<noteq> []" by simp
  have n: "parseInt ''abc'' = NaN" by code_simp
  show ?thesis
    using b n list_nan_page_not_rejected [OF b n, of Post "[]" "JObj []" empty_store "[]"]
    by simp
qed

subsection \<open>Validation of the payload\<close>

lemma joi_missing_required:
  assumes "k \<in> {''title'', ''body'', ''tags''}" and "map_of kvs k = None"
  shows "joi_validate write_schema (JObj kvs) \<noteq> None"
  using assms by (auto simp add: joi_validate_def write_schema_def)

text \<open>
  Claim C6. When the validation of a create payload reports an error, \<open>write_post\<close>
  answers 400 and leaves the store and the trace of store operations as they were, for
  every validator and every store. With the reference validator this is the case of
  every payload object that lacks \<open>title\<close>, \<open>body\<close> or \<open>tags\<close>.
\<close>

theorem write_rejects_invalid_payload:
  "(V write_schema (request_body c) = Some e \<longrightarrow>
      write_post V M c (s, tr) = (Done (set_status 400 c), (s, tr)) \<and>
      status (set_status 400 c) = 400) \<and>
   (request_body c = JObj kvs \<and> k \<in> {''title'', ''body'', ''tags''} \<and> map_of kvs k = None \<longrightarrow>
      write_post joi_validate M c (s, tr) = (Done (set_status 400 c), (s, tr)))"
proof (intro conjI impI)
  assume "V write_schema (request_body c) = Some e"
  then show "write_post V M c (s, tr) = (Done (set_status 400 c), (s, tr))"
    by (simp add: write_post_def)
next
  show "status (set_status 400 c) = 400" by (simp add: set_status_def)
next
  assume a: "request_body c = JObj kvs \<and> k \<in> {''title'', ''body'', ''tags''} \<and> map_of kvs k = None"
  then have "joi_validate write_schema (request_body c) \<noteq> None"
    using joi_missing_required [of k kvs] by simp
  then show "write_post joi_validate M c (s, tr) = (Done (set_status 400 c), (s, tr))"
    by (auto simp add: write_post_def)
qed

theorem write_rejects_invalid_payload_witness:
  "joi_validate write_schema (request_body (createContext [] None (JObj [(''title'', JStr ''A'')])))
     = Some (ValidationError ''body'')
   \<and> ''body'' \<in> {''title'', ''body'', ''tags''} \<and> map_of [(''title'', JStr ''A'')] ''body'' = None
   \<and> write_post joi_validate Post (createContext [] None (JObj [(''title'', JStr ''A'')]))
        (seed [example_post] empty_store, [])
      = (Done (set_status 400 (createContext [] None (JObj [(''title'', JStr ''A'')]))),
         (seed [example_post] empty_store, []))
   \<and> status (set_status 400 (createContext [] None (JObj [(''title'', JStr ''A'')]))) = 400"
proof -
  let ?c = "createContext [] None (JObj [(''title'', JStr ''A'')])"
  have h: "joi_validate write_schema (request_body ?c) = Some (ValidationError ''body'')"
    by code_simp
  have m: "''body'' \<in> {''title'', ''body'', ''tags''} \<and> map_of [(''title'', JStr ''A'')] ''body'' = None"
    by simp
  show ?thesis
    using h m write_rejects_invalid_payload [of joi_validate ?c "ValidationError ''body''" Post
        "seed [example_post] empty_store" "[]" "[(''title'', JStr ''A'')]" "''body''"]
    by simp
qed

subsection \<open>Reading a post\<close>

text \<open>
  Claim C10. \<open>read\<close> validates the request body against its schema of optional \<open>title\<close>,
  \<open>body\<close> and \<open>tags\<close> before it touches the store: when the validation reports an error
  the answer is 400 with that error as body, and the store and the trace of store
  operations are as they were.
\<close>

theorem read_validates_body_first:
  assumes "V read_schema (request_body c) = Some e"
  shows "read V M c (s, tr) = (Done (set_body (JoiError e) (set_status 400 c)), (s, tr))
         \<and> status (set_body (JoiError e) (set_status 400 c)) = 400
         \<and> body (set_body (JoiError e) (set_status 400 c)) = Some (JoiError e)"
  using assms by (simp add: read_def set_body_def set_status_def)

theorem read_validates_body_first_witness:
  "joi_validate read_schema
      (request_body (createContext (oid 0) None (JObj [(''tags'', JStr ''x'')])))
     = Some (ValidationError ''tags'')
   \<and> fst (findById Post (oid 0) (seed [example_post] empty_store))
       = Inr (Some ((''_id'', JStr (oid 0)) # example_post))
   \<and> read joi_validate Post (createContext (oid 0) None (JObj [(''tags'', JStr ''x'')]))
        (seed [example_post] empty_store, [])
      = (Done (set_body (JoiError (ValidationError ''tags''))
                (set_status 400 (createContext (oid 0) None (JObj [(''tags'', JStr ''x'')])))),
         (seed [example_post] empty_store, []))
   \<and> status (set_body (JoiError (ValidationError ''tags''))
                (set_status 400 (createContext (oid 0) None (JObj [(''tags'', JStr ''x'')]))))
       = 400"
proof -
  let ?c = "createContext (oid 0) None (JObj [(''tags'', JStr ''x'')])"
  have h: "joi_validate read_schema (request_body ?c) = Some (ValidationError ''tags'')"
    by code_simp
  have f: "fst (findById Post (oid 0) (seed [example_post] empty_store))
       = Inr (Some ((''_id'', JStr (oid 0)) # example_post))"
    by code_simp
  show ?thesis
    using h f read_validates_body_first [of joi_validate ?c "ValidationError ''tags''" Post
        "seed [example_post] empty_store" "[]"]
    by simp
qed

text \<open>
  Claim C7. A read with a well-formed identifier should answer 404 when the store has no
  such post and 200 with the post when it has one. The handler first checks the request
  body against the schema of a partial post, a check that belongs to \<open>update\<close>: for a
  stored post and a request body \<open>{"title": 1}\<close> it answers 400 with the validation error
  and never asks the store, although the store would return the post.
\<close>

theorem read_existing_post_rejected:
  "findById Post (oid 0) (seed [example_post] empty_store)
     = (Inr (Some ((''_id'', JStr (oid 0)) # example_post)), seed [example_post] empty_store)
   \<and> read joi_validate Post (createContext (oid 0) None (JObj [(''title'', JNum 1)]))
          (seed [example_post] empty_store, [])
     = (Done (set_body (JoiError (ValidationError ''title''))
               (set_status 400 (createContext (oid 0) None (JObj [(''title'', JNum 1)])))),
        (seed [example_post] empty_store, []))
   \<and> status (set_body (JoiError (ValidationError ''title''))
               (set_status 400 (createContext (oid 0) None (JObj [(''title'', JNum 1)])))) = 400"
  by code_simp

text \<open>
  What \<open>read\<close> answers once the request body has passed that check: 404 when the store's
  \<open>findById\<close> returns no post, 200 with the post as body when it returns one.
\<close>

lemma read_after_validation:
  assumes "V read_schema payload = None"
  shows "(findById M i s = (Inr None, s') \<longrightarrow>
            read V M (createContext i q payload) (s, tr)
              = (Done (set_status 404 (createContext i q payload)), (s', tr @ [FindById i]))
            \<and> status (set_status 404 (createContext i q payload)) = 404)
         \<and> (findById M i s = (Inr (Some post), s') \<longrightarrow>
            read V M (createContext i q payload) (s, tr)
              = (Done (set_body (Json (JObj post)) (createContext i q payload)),
                 (s', tr @ [FindById i]))
            \<and> status (set_body (Json (JObj post)) (createContext i q payload)) = 200
            \<and> body (set_body (Json (JObj post)) (createContext i q payload))
                = Some (Json (JObj post)))"
  using assms
  by (simp add: read_def invoke_def set_body_def set_status_def createContext_def)

lemma read_after_validation_example:
  "joi_validate read_schema (JObj []) = None
   \<and> findById Post (oid 1) (seed [example_post] empty_store)
       = (Inr None, seed [example_post] empty_store)
   \<and> read joi_validate Post (createContext (oid 1) None (JObj []))
        (seed [example_post] empty_store, [])
       = (Done (set_status 404 (createContext (oid 1) None (JObj []))),
          (seed [example_post] empty_store, [] @ [FindById (oid 1)]))
   \<and> status (set_status 404 (createContext (oid 1) None (JObj []))) = 404
   \<and> findById Post (oid 0) (seed [example_post] empty_store)
       = (Inr (Some ((''_id'', JStr (oid 0)) # example_post)), seed [example_post] empty_store)
   \<and> read joi_validate Post (createContext (oid 0) None (JObj []))
        (seed [example_post] empty_store, [])
       = (Done (set_body (Json (JObj ((''_id'', JStr (oid 0)) # example_post)))
                  (createContext (oid 0) None (JObj []))),
          (seed [example_post] empty_store, [] @ [FindById (oid 0)]))
   \<and> status (set_body (Json (JObj ((''_id'', JStr (oid 0)) # example_post)))
                  (createContext (oid 0) None (JObj []))) = 200"
proof -
  let ?s = "seed [example_post] empty_store"
  let ?d = "(''_id'', JStr (oid 0)) # example_post"
  have v: "joi_validate read_schema (JObj []) = None" by code_simp
  have n: "findById Post (oid 1) ?s = (Inr None, ?s)" by code_simp
  have f: "findById Post (oid 0) ?s = (Inr (Some ?d), ?s)" by code_simp
  show ?thesis
    using v n f
      read_after_validation [where V = joi_validate and payload = "JObj []" and M = Post
        and i = "oid 1" and s = ?s and s' = ?s and q = None and tr = "[]"]
      read_after_validation [where V = joi_validate and payload = "JObj []" and M = Post
        and i = "oid 0" and s = ?s and s' = ?s and q = None and tr = "[]" and post = ?d]
    by simp
qed

subsection \<open>Updating a post\<close>

text \<open>
  \<open>update\<close> hands the request body to the store as it came: whatever the payload, the
  store operation is invoked, and the answer is never 400.
\<close>

lemma update_invokes_store:
  "snd (snd (update M c (s, tr))) = tr @ [FindByIdAndUpdate (params_id c) (request_body c)]"
  by (simp add: update_def invoke_def split: prod.splits sum.splits option.splits)

lemma update_never_400:
  "\<not> explicitStatus c \<Longrightarrow>
   (case fst (update M c w) of
      Done r \<Rightarrow> status r = 200 \<or> status r = 404
    | Thrown x \<Rightarrow> x \<in> range (HttpError 500))"
  by (simp add: update_def invoke_def set_status_def set_body_def
        split: prod.splits sum.splits option.splits)

text \<open>
  Claim C2. An update whose payload has a field outside \<open>title\<close>, \<open>body\<close>, \<open>tags\<close> or a
  field of the wrong type should be answered with 400 without an update of the store. For
  the payload \<open>{"title": 123, "admin": true}\<close> and a stored post, the handler invokes the
  store's update with that payload and answers 200 with the changed post.
\<close>

theorem update_invalid_payload_reaches_store:
  "fst (update Post
          (createContext (oid 0) None (JObj [(''title'', JNum 123), (''admin'', JBool True)]))
          (seed [example_post] empty_store, []))
     = Done (set_body
               (Json (JObj [(''_id'', JStr (oid 0)), (''title'', JNum 123), (''body'', JStr ''B''),
                            (''tags'', JArr [JStr ''x'']), (''admin'', JBool True)]))
               (createContext (oid 0) None
                  (JObj [(''title'', JNum 123), (''admin'', JBool True)])))
   \<and> status (set_body
               (Json (JObj [(''_id'', JStr (oid 0)), (''title'', JNum 123), (''body'', JStr ''B''),
                            (''tags'', JArr [JStr ''x'']), (''admin'', JBool True)]))
               (createContext (oid 0) None
                  (JObj [(''title'', JNum 123), (''admin'', JBool True)]))) = 200
   \<and> snd (snd (update Post
          (createContext (oid 0) None (JObj [(''title'', JNum 123), (''admin'', JBool True)]))
          (seed [example_post] empty_store, [])))
     = [FindByIdAndUpdate (oid 0) (JObj [(''title'', JNum 123), (''admin'', JBool True)])]"
  by code_simp

text \<open>How the reference store merges a patch into a post.\<close>

lemma map_of_patch_fields_id: "map_of (patch_fields p) ''_id'' = None"
  by (cases p) (auto simp add: patch_fields_def map_of_eq_None_iff)

lemma map_of_patch_fields:
  "k \<noteq> ''_id'' \<Longrightarrow> map_of (patch_fields (JObj patch)) k = map_of patch k"
  by (induction patch) (auto simp add: patch_fields_def)

lemma map_of_merge_patch: "map_of (merge_patch p d) = map_of d ++ map_of (patch_fields p)"
  by (simp add: merge_patch_def merge_conv')

lemma has_id_merge_patch: "has_id i (merge_patch p d) = has_id i d"
  by (simp add: has_id_def map_of_merge_patch map_add_def map_of_patch_fields_id)

lemma find_merge_patch:
  "find (has_id i) (map (\<lambda>d. if has_id i d then merge_patch p d else d) ds)
     = map_option (merge_patch p) (find (has_id i) ds)"
  by (induction ds) (simp_all add: has_id_merge_patch)

lemma omitted_key_kept:
  assumes "k \<notin> fst ` set patch"
  shows "map_of (merge_patch (JObj patch) d) k = map_of d k"
proof -
  have "k \<notin> fst ` set (patch_fields (JObj patch))"
    using assms by (auto simp add: patch_fields_def)
  then have "map_of (patch_fields (JObj patch)) k = None"
    by (simp add: map_of_eq_None_iff)
  then show ?thesis by (simp add: map_of_merge_patch map_add_def)
qed

lemma supplied_key_set:
  assumes "k \<noteq> ''_id''" and "map_of patch k = Some v"
  shows "map_of (merge_patch (JObj patch) d) k = Some v"
  using assms by (simp add: map_of_merge_patch map_add_def map_of_patch_fields)

text \<open>
  Claim C8. An update of an existing post hands the payload to the store as the patch, and
  the store merges it: every field the payload omits keeps its stored value, and every
  field it supplies (the identifier apart) takes the supplied value. For the payload
  \<open>{"title": "new"}\<close> only \<open>title\<close> changes; \<open>body\<close> and \<open>tags\<close> stay as stored.
\<close>

theorem update_keeps_omitted_fields:
  assumes "online s" and "find (has_id (params_id c)) (docs s) = Some d"
    and "request_body c = JObj patch"
  shows "\<exists>d' s'.
           update Post c (s, tr)
             = (Done (set_body (Json (JObj d')) c),
                (s', tr @ [FindByIdAndUpdate (params_id c) (JObj patch)])) \<and>
           find (has_id (params_id c)) (docs s') = Some d' \<and>
           (\<forall>k. k \<notin> fst ` set patch \<longrightarrow> map_of d' k = map_of d k) \<and>
           (\<forall>k v. k \<noteq> ''_id'' \<and> map_of patch k = Some v \<longrightarrow> map_of d' k = Some v)"
proof -
  let ?d' = "merge_patch (JObj patch) d"
  let ?s' = "s\<lparr>docs := map (\<lambda>x. if has_id (params_id c) x then merge_patch (JObj patch) x else x) (docs s)\<rparr>"
  have run: "update Post c (s, tr)
             = (Done (set_body (Json (JObj ?d')) c),
                (?s', tr @ [FindByIdAndUpdate (params_id c) (JObj patch)]))"
    using assms by (simp add: update_def invoke_def Post_def store_updateById_def)
  have found: "find (has_id (params_id c)) (docs ?s') = Some ?d'"
    using assms(2) by (simp add: find_merge_patch)
  have kept: "\<forall>k. k \<notin> fst ` set patch \<longrightarrow> map_of ?d' k = map_of d k"
    by (simp add: omitted_key_kept)
  have new: "\<forall>k v. k \<noteq> ''_id'' \<and> map_of patch k = Some v \<longrightarrow> map_of ?d' k = Some v"
    by (simp add: supplied_key_set)
  from run found kept new show ?thesis by blast
qed

theorem update_keeps_omitted_fields_witness:
  "online (seed [example_post] empty_store)
   \<and> find (has_id (params_id (createContext (oid 0) None (JObj [(''title'', JStr ''new'')]))))
        (docs (seed [example_post] empty_store)) = Some ((''_id'', JStr (oid 0)) # example_post)
   \<and> request_body (createContext (oid 0) None (JObj [(''title'', JStr ''new'')]))
        = JObj [(''title'', JStr ''new'')]
   \<and> (\<exists>d' s'.
         update Post (createContext (oid 0) None (JObj [(''title'', JStr ''new'')]))
            (seed [example_post] empty_store, [])
           = (Done (set_body (Json (JObj d'))
                      (createContext (oid 0) None (JObj [(''title'', JStr ''new'')]))),
              (s', [FindByIdAndUpdate (oid 0) (JObj [(''title'', JStr ''new'')])])) \<and>
         find (has_id (oid 0)) (docs s') = Some d' \<and>
         map_of d' ''title'' = Some (JStr ''new'') \<and>
         map_of d' ''body'' = Some (JStr ''B'') \<and>
         map_of d' ''tags'' = Some (JArr [JStr ''x'']))"
proof -
  let ?p = "[(''title'', JStr ''new'')]"
  let ?c = "createContext (oid 0) None (JObj ?p)"
  let ?s = "seed [example_post] empty_store"
  let ?d = "(''_id'', JStr (oid 0)) # example_post"
  have a: "online ?s" by code_simp
  have b: "find (has_id (params_id ?c)) (docs ?s) = Some ?d"
    by code_simp
  have c: "request_body ?c = JObj ?p" by (simp add: createContext_def)
  have i: "params_id ?c = oid 0" by (simp add: createContext_def)
  from update_keeps_omitted_fields [OF a b c, of "[]"] obtain d' s' where
    run: "update Post ?c (?s, []) = (Done (set_body (Json (JObj d')) ?c),
            (s', [] @ [FindByIdAndUpdate (params_id ?c) (JObj ?p)]))" and
    found: "find (has_id (params_id ?c)) (docs s') = Some d'" and
    kept: "\<forall>k. k \<notin> fst ` set ?p \<longrightarrow> map_of d' k = map_of ?d k" and
    new: "\<forall>k v. k \<noteq> ''_id'' \<and> map_of ?p k = Some v \<longrightarrow> map_of d' k = Some v"
    by blast
  have t: "map_of d' ''title'' = Some (JStr ''new'')" using new by simp
  have bd: "map_of d' ''body'' = Some (JStr ''B'')"
    using kept by (simp add: example_post_def)
  have tg: "map_of d' ''tags'' = Some (JArr [JStr ''x''])"
    using kept by (simp add: example_post_def)
  from run found t bd tg i have
    "update Post ?c (?s, []) = (Done (set_body (Json (JObj d')) ?c),
        (s', [FindByIdAndUpdate (oid 0) (JObj ?p)])) \<and>
     find (has_id (oid 0)) (docs s') = Some d' \<and>
     map_of d' ''title'' = Some (JStr ''new'') \<and>
     map_of d' ''body'' = Some (JStr ''B'') \<and>
     map_of d' ''tags'' = Some (JArr [JStr ''x''])"
    by simp
  then have "\<exists>d' s'. update Post ?c (?s, []) = (Done (set_body (Json (JObj d')) ?c),
        (s', [FindByIdAndUpdate (oid 0) (JObj ?p)])) \<and>
     find (has_id (oid 0)) (docs s') = Some d' \<and>
     map_of d' ''title'' = Some (JStr ''new'') \<and>
     map_of d' ''body'' = Some (JStr ''B'') \<and>
     map_of d' ''tags'' = Some (JArr [JStr ''x''])"
    by blast
  with a b c show ?thesis by simp
qed

end
